theory Spec2Isabelle
  imports Main "HOL-Library.Sublist"
begin

section \<open>The settings window of cdmenu (src/main.js): the model\<close>

text \<open>
  The script keeps a handful of module variables, reads and writes a fixed set of DOM
  elements, and talks to the backend through \<^verbatim>\<open>invoke\<close>. The model threads one record
  through every function: the module variables, the fields of the DOM elements the script
  touches, and the trace of what it sent out (backend commands, notifications, console
  errors). What the backend answers to an \<^verbatim>\<open>await invoke(...)\<close> is an argument of the
  function that awaits it. A function whose outcome depends on what other handlers did
  while it was suspended (\<^verbatim>\<open>addMonitoredPipeline\<close>, which undoes its own change after the
  \<^verbatim>\<open>await\<close>) is modelled in two halves, before and after the \<^verbatim>\<open>await\<close>, so that other
  handlers can run in between.

  A JavaScript string is a \<^typ>\<open>string\<close> holding its UTF-8 bytes; the empty string is the
  only falsy one.
\<close>

subsection \<open>JavaScript values\<close>

text \<open>A reference that may be \<^verbatim>\<open>null\<close> or \<^verbatim>\<open>undefined\<close>; both are falsy, an object is truthy.\<close>

datatype 'a js_ref = JNull | JUndefined | JObj 'a

text \<open>
  What a \<^verbatim>\<open>catch (e)\<close> can receive: the value a rejected \<^verbatim>\<open>invoke\<close> carries (its
  text), or a \<^verbatim>\<open>TypeError\<close> of the runtime (its message).
\<close>

datatype js_error = Rejected string | TypeError string

text \<open>The text of \<^verbatim>\<open>${e}\<close> in a template literal.\<close>

fun error_text :: "js_error \<Rightarrow> string" where
  "error_text (Rejected m) = m"
| "error_text (TypeError m) = ''TypeError: '' @ m"

text \<open>
  A string-valued field that may be \<^verbatim>\<open>null\<close> is a \<^typ>\<open>string option\<close>; it is falsy
  when it is \<^verbatim>\<open>null\<close> or empty. \<^verbatim>\<open>a || b\<close> yields \<^verbatim>\<open>b\<close> when \<^verbatim>\<open>a\<close> is falsy.
\<close>

fun or_else :: "string option \<Rightarrow> string \<Rightarrow> string" where
  "or_else None d = d"
| "or_else (Some s) d = (if s = [] then d else s)"

text \<open>The index of the first element satisfying a test.\<close>

fun first_index :: "('a \<Rightarrow> bool) \<Rightarrow> 'a list \<Rightarrow> nat option" where
  "first_index P [] = None"
| "first_index P (x # xs) = (if P x then Some 0 else map_option Suc (first_index P xs))"

text \<open>
  A number as \<^verbatim>\<open>parseInt\<close> returns it: \<^verbatim>\<open>NaN\<close>, a double whose value is an integer
  (\<open>Num\<close> holds that value), or an infinity.
\<close>

datatype js_number = NaN | Num int | Infinity | Minus_Infinity

text \<open>
  \<^verbatim>\<open>x < k\<close> for a number and an integer constant: every comparison with \<^verbatim>\<open>NaN\<close> is
  false.
\<close>

fun js_less :: "js_number \<Rightarrow> int \<Rightarrow> bool" where
  "js_less NaN k = False"
| "js_less (Num n) k = (n < k)"
| "js_less Infinity k = False"
| "js_less Minus_Infinity k = True"

text \<open>
  The double nearest to a non-negative integer, ties to the even significand; \<open>None\<close>
  when it is out of range (from \<open>2^1024 - 2^970\<close> on), which the number type turns into
  an infinity. Up to 53 bits the integer is its own double; beyond, the low bits are
  rounded away.
\<close>

fun bit_length :: "nat \<Rightarrow> nat" where
  "bit_length n = (if n = 0 then 0 else Suc (bit_length (n div 2)))"

declare bit_length.simps [simp del]

definition nearest_double :: "nat \<Rightarrow> nat option" where
  "nearest_double n =
     (if bit_length n \<le> 53 then Some n
      else
        let q = 2 ^ (bit_length n - 53);
            m = n div q;
            r = n mod q;
            m = (if 2 * r < q then m
                 else if q < 2 * r then m + 1
                 else if even m then m else m + 1)
        in if 2 ^ 1024 \<le> m * q then None else Some (m * q))"

text \<open>The decimal text of a non-negative integer, as \<^verbatim>\<open>${n}\<close> prints a count.\<close>

definition digit_char :: "nat \<Rightarrow> char" where
  "digit_char d = ''0123456789'' ! d"

fun decimal :: "nat \<Rightarrow> string" where
  "decimal n = (if n < 10 then [digit_char n] else decimal (n div 10) @ [digit_char (n mod 10)])"

declare decimal.simps [simp del]

subsection \<open>\<^verbatim>\<open>parseInt(string, 10)\<close>\<close>

text \<open>
  The builtin, as ECMAScript defines it for radix 10: leading white space is skipped, one
  sign is read, then the longest run of decimal digits; with no digit the result is
  \<^verbatim>\<open>NaN\<close>, and whatever follows the digits is ignored. The result is the double
  nearest to the signed integer the digits denote, an infinity when that is out of range
  (the standard lets an engine drop digits after the twentieth before it rounds; the model
  rounds the integer itself, as the engines of the web views do); \<^verbatim>\<open>-0\<close> is \<open>Num 0\<close>.

  \<open>js_whitespace\<close> lists the UTF-8 encodings of the white space and line terminator
  code points: U+0009 to U+000D, U+0020, U+00A0, U+1680, U+2000 to U+200A, U+2028, U+2029,
  U+202F, U+205F, U+3000 and U+FEFF.
\<close>

definition js_whitespace :: "string list" where
  "js_whitespace =
     [[CHR 0x09], [CHR 0x0A], [CHR 0x0B], [CHR 0x0C], [CHR 0x0D], [CHR 0x20],
      [CHR 0xC2, CHR 0xA0], [CHR 0xE1, CHR 0x9A, CHR 0x80],
      [CHR 0xE2, CHR 0x80, CHR 0x80], [CHR 0xE2, CHR 0x80, CHR 0x81],
      [CHR 0xE2, CHR 0x80, CHR 0x82], [CHR 0xE2, CHR 0x80, CHR 0x83],
      [CHR 0xE2, CHR 0x80, CHR 0x84], [CHR 0xE2, CHR 0x80, CHR 0x85],
      [CHR 0xE2, CHR 0x80, CHR 0x86], [CHR 0xE2, CHR 0x80, CHR 0x87],
      [CHR 0xE2, CHR 0x80, CHR 0x88], [CHR 0xE2, CHR 0x80, CHR 0x89],
      [CHR 0xE2, CHR 0x80, CHR 0x8A], [CHR 0xE2, CHR 0x80, CHR 0xA8],
      [CHR 0xE2, CHR 0x80, CHR 0xA9], [CHR 0xE2, CHR 0x80, CHR 0xAF],
      [CHR 0xE2, CHR 0x81, CHR 0x9F], [CHR 0xE3, CHR 0x80, CHR 0x80],
      [CHR 0xEF, CHR 0xBB, CHR 0xBF]]"

text \<open>The white space at the start of a string, if any, as the encoding found there.\<close>

definition leading_whitespace :: "string \<Rightarrow> string option" where
  "leading_whitespace s = find (\<lambda>w. prefix w s) js_whitespace"

function trim_start :: "string \<Rightarrow> string" where
  "trim_start s =
     (case leading_whitespace s of
        None \<Rightarrow> s
      | Some w \<Rightarrow> trim_start (drop (length w) s))"
  by pat_completeness auto
termination
proof (relation "measure length")
  fix s w
  assume "leading_whitespace s = Some w"
  then have "w \<in> set js_whitespace" and "prefix w s"
    by (auto simp: leading_whitespace_def find_Some_iff)
  moreover have "[] \<notin> set js_whitespace"
    by (simp add: js_whitespace_def)
  ultimately have "w \<noteq> []" and "length w \<le> length s"
    by (auto simp: prefix_def)
  then have "length (drop (length w) s) < length s"
    by (cases w) auto
  then show "(drop (length w) s, s) \<in> measure length"
    by simp
qed simp

declare trim_start.simps [simp del]

definition is_digit :: "char \<Rightarrow> bool" where
  "is_digit c = (c \<in> set ''0123456789'')"

definition digit_value :: "char \<Rightarrow> nat" where
  "digit_value c = (case first_index (\<lambda>d. d = c) ''0123456789'' of None \<Rightarrow> 0 | Some v \<Rightarrow> v)"

definition decimal_value :: "string \<Rightarrow> nat" where
  "decimal_value z = foldl (\<lambda>a c. 10 * a + digit_value c) 0 z"

definition parseInt :: "string \<Rightarrow> js_number" where
  "parseInt inputString =
     (let S = trim_start inputString;
          negative = (case S of [] \<Rightarrow> False | c # cs \<Rightarrow> c = CHR ''-'');
          S = (case S of [] \<Rightarrow> S | c # cs \<Rightarrow> if c = CHR ''+'' \<or> c = CHR ''-'' then cs else S);
          Z = takeWhile is_digit S
      in if Z = [] then NaN
         else case nearest_double (decimal_value Z) of
                None \<Rightarrow> if negative then Minus_Infinity else Infinity
              | Some v \<Rightarrow> Num (if negative then - int v else int v))"

subsection \<open>Records of the backend\<close>

text \<open>
  A monitored pipeline as the backend stores it and as line 313 builds it. The fields the
  script reads with a fallback (\<^verbatim>\<open>project_name\<close>, \<^verbatim>\<open>repo_name\<close>) or writes as \<^verbatim>\<open>null\<close>
  (\<^verbatim>\<open>branch\<close>) may be \<^verbatim>\<open>null\<close>.
\<close>

record pipeline =
  workspace :: string
  project_key :: "string option"
  project_name :: "string option"
  repo_slug :: string
  repo_name :: "string option"
  branch :: "string option"

record workspace_entry =
  slug :: string
  name :: "string option"

text \<open>
  An entry of \<^verbatim>\<open>failed_pipelines\<close>: the fields the display reads. \<open>failure_reason\<close> is the
  text that \<^verbatim>\<open>${p.failure_reason}\<close> prints.
\<close>

record failed_pipeline =
  failed_repo_name :: "string option"
  failed_repo_slug :: string
  failure_reason :: string

text \<open>
  The status object of the backend: the fields the display reads. The counts are
  non-negative integers; \<open>last_checked\<close> is the text that \<^verbatim>\<open>${status.last_checked}\<close> prints.
\<close>

record aggregate_status =
  is_healthy :: bool
  total_monitored :: nat
  in_progress_count :: nat
  failed_pipelines :: "failed_pipeline list"
  last_checked :: string

text \<open>
  A backend command as \<^verbatim>\<open>invoke\<close> sends it, with its arguments: the commands of the
  functions modelled below.
\<close>

datatype invocation =
    Get_credentials
  | Get_app_password
  | Get_monitored_pipelines
  | Get_pipeline_statuses
  | Get_workspaces string string
  | Save_monitored_pipelines "pipeline list"
  | Set_polling_interval js_number
  | Trigger_refresh

text \<open>The outcome of an awaited \<^verbatim>\<open>invoke\<close>: \<open>Inl e\<close> when the promise rejects with \<open>e\<close>.\<close>

type_synonym 'a reply = "js_error + 'a"

subsection \<open>DOM elements\<close>

text \<open>
  A drop-down: the (value, textContent) of its options, the selected index (\<open>None\<close> is
  \<^verbatim>\<open>-1\<close>) and the disabled flag.
\<close>

record select_el =
  options :: "(string \<times> string) list"
  selectedIndex :: "nat option"
  disabled :: bool

text \<open>\<^verbatim>\<open>select.options[select.selectedIndex]\<close>, \<open>None\<close> when it is \<^verbatim>\<open>undefined\<close>.\<close>

definition selected_option :: "select_el \<Rightarrow> (string \<times> string) option" where
  "selected_option s =
     (case selectedIndex s of
        None \<Rightarrow> None
      | Some i \<Rightarrow> if i < length (options s) then Some (options s ! i) else None)"

text \<open>\<^verbatim>\<open>select.value\<close>: the value of the selected option, empty when none is selected.\<close>

definition select_value :: "select_el \<Rightarrow> string" where
  "select_value s = (case selected_option s of None \<Rightarrow> [] | Some (v, t) \<Rightarrow> v)"

text \<open>
  \<^verbatim>\<open>option.text\<close> is the option's text content with ASCII whitespace stripped at both
  ends and every inner run of it collapsed to one space.
\<close>

definition ascii_whitespace :: "char \<Rightarrow> bool" where
  "ascii_whitespace c = (c \<in> set [CHR 0x09, CHR 0x0A, CHR 0x0C, CHR 0x0D, CHR 0x20])"

fun collapse :: "string \<Rightarrow> string" where
  "collapse [] = []"
| "collapse [c] = (if ascii_whitespace c then [] else [c])"
| "collapse (c # d # cs) =
     (if ascii_whitespace c
      then (if ascii_whitespace d then collapse (d # cs) else CHR '' '' # collapse (d # cs))
      else c # collapse (d # cs))"

definition option_text :: "string \<Rightarrow> string" where
  "option_text content = collapse (dropWhile ascii_whitespace content)"

text \<open>\<^verbatim>\<open>select.value = v\<close> selects the first option whose value is \<open>v\<close>, or none.\<close>

definition set_select_value :: "string \<Rightarrow> select_el \<Rightarrow> select_el" where
  "set_select_value v s = s\<lparr>selectedIndex := first_index (\<lambda>opt. fst opt = v) (options s)\<rparr>"

text \<open>An element that shows a message: text, class and CSS display.\<close>

record message_el =
  textContent :: string
  className :: string
  display :: string

text \<open>
  A child of the pipeline list as \<^verbatim>\<open>renderPipelineList\<close> builds it: the placeholder of
  the empty list, a header with its text, or an item with the markup assigned to its
  \<^verbatim>\<open>innerHTML\<close> and the index its remove button passes to \<^verbatim>\<open>removePipeline\<close>.
\<close>

datatype list_item =
    Empty_item
  | Header_item string
  | Pipeline_item string nat

text \<open>
  The browser's part in drawing an item, which the script does not contain: whether, once
  the markup is assigned to \<^verbatim>\<open>li.innerHTML\<close>, \<^verbatim>\<open>li.querySelector('.remove-btn')\<close> finds an
  element. The repository name goes into the markup unescaped, so a name can swallow the
  button (a name that opens a comment, say). A function that draws the list takes this as
  its first argument.
\<close>

type_synonym button_lookup = "string \<Rightarrow> bool"

subsection \<open>The state of the window\<close>

record ui_state =
  currentUsername :: string
  currentAppPassword :: string
  workspaces :: "workspace_entry list"
  monitoredPipelines :: "pipeline list"
  usernameInput :: string
  appPasswordInput_placeholder :: string
  authStatus :: message_el
  workspaceSelect :: select_el
  projectSelect :: select_el
  repoSelect :: select_el
  addPipelineBtn_disabled :: bool
  pipelineList :: "list_item list"
  pollingIntervalInput :: string
  statusDetails :: string
  statusIndicator :: string
  notifications :: "(string \<times> string) list"
  invoked :: "invocation list"
  console_errors :: "(string \<times> js_error) list"

text \<open>
  \<open>statusDetails\<close> is the element's \<^verbatim>\<open>innerHTML\<close> as assigned, \<open>statusIndicator\<close> its
  \<^verbatim>\<open>className\<close>, \<open>usernameInput\<close> and \<open>pollingIntervalInput\<close> the \<^verbatim>\<open>value\<close> of the
  inputs. \<open>notifications\<close> lists the (message, type) of every notification element shown,
  newest last; \<open>invoked\<close> every backend command sent; \<open>console_errors\<close> every
  \<^verbatim>\<open>console.error\<close>.
\<close>

text \<open>
  The window before the script has run: the module variables as lines 9 to 15 initialise
  them, nothing sent yet, and the elements empty (the page's markup is not part of the
  script).
\<close>

definition empty_select :: select_el where
  "empty_select = \<lparr>options = [], selectedIndex = None, disabled = False\<rparr>"

definition initial_state :: ui_state where
  "initial_state =
     \<lparr>currentUsername = [], currentAppPassword = [], workspaces = [], monitoredPipelines = [],
      usernameInput = [], appPasswordInput_placeholder = [],
      authStatus = \<lparr>textContent = [], className = [], display = []\<rparr>,
      workspaceSelect = empty_select, projectSelect = empty_select, repoSelect = empty_select,
      addPipelineBtn_disabled = False, pipelineList = [], pollingIntervalInput = [],
      statusDetails = [], statusIndicator = [], notifications = [], invoked = [],
      console_errors = []\<rparr>"

definition invoke :: "invocation \<Rightarrow> ui_state \<Rightarrow> ui_state" where
  "invoke c st = st\<lparr>invoked := invoked st @ [c]\<rparr>"

definition console_error :: "string \<Rightarrow> js_error \<Rightarrow> ui_state \<Rightarrow> ui_state" where
  "console_error m e st = st\<lparr>console_errors := console_errors st @ [(m, e)]\<rparr>"

definition showAuthStatus :: "string \<Rightarrow> string \<Rightarrow> ui_state \<Rightarrow> ui_state" where
  "showAuthStatus message type st =
     st\<lparr>authStatus := \<lparr>textContent = message, className = ''status-message '' @ type,
                        display = ''block''\<rparr>\<rparr>"

text \<open>
  \<^verbatim>\<open>showNotification\<close> removes the notification on display and appends a new one to the
  body; a timer removes it three seconds later (time is not modelled).
\<close>

definition showNotification :: "string \<Rightarrow> string \<Rightarrow> ui_state \<Rightarrow> ui_state" where
  "showNotification message type st = st\<lparr>notifications := notifications st @ [(message, type)]\<rparr>"

subsection \<open>The status display\<close>

definition healthy_html :: "aggregate_status \<Rightarrow> string" where
  \<open>healthy_html status =
     (let html = ''<p class="healthy">All '' @ decimal (total_monitored status)
                   @ '' pipeline(s) healthy</p>'';
          html = (if in_progress_count status > 0
                  then html @ ''<p class="in-progress">'' @ decimal (in_progress_count status)
                         @ '' in progress</p>''
                  else html)
      in html @ ''<p class="last-checked">Last checked: '' @ last_checked status @ ''</p>'')\<close>

definition failed_entry :: "failed_pipeline \<Rightarrow> string" where
  "failed_entry p =
     ''<li>'' @ or_else (failed_repo_name p) (failed_repo_slug p) @ '' - '' @ failure_reason p
       @ ''</li>''"

definition failed_html :: "aggregate_status \<Rightarrow> string" where
  \<open>failed_html status =
     (let failedList = concat (map failed_entry (failed_pipelines status))
      in ''\<newline>            <p class="failed">'' @ decimal (length (failed_pipelines status))
           @ '' pipeline(s) failed</p>\<newline>            <ul class="failed-list">'' @ failedList
           @ ''</ul>\<newline>            <p class="last-checked">Last checked: ''
           @ last_checked status @ ''</p>\<newline>        '')\<close>

fun updateStatusDisplay :: "aggregate_status js_ref \<Rightarrow> ui_state \<Rightarrow> ui_state" where
  "updateStatusDisplay (JObj status) st =
     (let st = st\<lparr>statusIndicator := (if is_healthy status then ''status-green'' else ''status-red'')\<rparr>
      in if is_healthy status
         then st\<lparr>statusDetails := healthy_html status\<rparr>
         else st\<lparr>statusDetails := failed_html status\<rparr>)"
| "updateStatusDisplay absent st =
     st\<lparr>statusDetails := ''<p>No status available</p>'', statusIndicator := ''status-gray''\<rparr>"

text \<open>\<^verbatim>\<open>loadCurrentStatus\<close>, given the reply to \<^verbatim>\<open>get_pipeline_statuses\<close>.\<close>

definition loadCurrentStatus :: "aggregate_status js_ref reply \<Rightarrow> ui_state \<Rightarrow> ui_state" where
  "loadCurrentStatus r st =
     (let st = invoke Get_pipeline_statuses st
      in case r of
           Inl e \<Rightarrow> console_error ''Failed to load status:'' e st
         | Inr (JObj status) \<Rightarrow> updateStatusDisplay (JObj status) st
         | Inr absent \<Rightarrow> st)"

text \<open>The handler of the \<^verbatim>\<open>status-updated\<close> event, given the event's payload.\<close>

definition status_updated :: "aggregate_status js_ref \<Rightarrow> ui_state \<Rightarrow> ui_state" where
  "status_updated payload st = updateStatusDisplay payload st"

subsection \<open>Settings\<close>

text \<open>\<^verbatim>\<open>saveSettings\<close>, given the reply to \<^verbatim>\<open>set_polling_interval\<close> (read only if it is sent).\<close>

definition saveSettings :: "unit reply \<Rightarrow> ui_state \<Rightarrow> ui_state" where
  "saveSettings r st =
     (let interval = parseInt (pollingIntervalInput st)
      in if js_less interval 30
         then showNotification ''Interval must be at least 30 seconds'' ''error'' st
         else let st = invoke (Set_polling_interval interval) st
              in case r of
                   Inr u \<Rightarrow> showNotification ''Settings saved!'' ''success'' st
                 | Inl e \<Rightarrow>
                     showNotification (''Failed to save settings: '' @ error_text e) ''error'' st)"

subsection \<open>Credentials and workspaces\<close>

text \<open>
  Assigning the placeholder markup to a drop-down leaves it with that one option, which a
  single-choice drop-down then shows as selected; appending options does not move the
  selection.
\<close>

definition populateWorkspaceSelect :: "ui_state \<Rightarrow> ui_state" where
  "populateWorkspaceSelect st =
     st\<lparr>workspaceSelect :=
          \<lparr>options = ([], ''Select Workspace'')
                       # map (\<lambda>ws. (slug ws, or_else (name ws) (slug ws))) (workspaces st),
           selectedIndex = Some 0,
           disabled = False\<rparr>\<rparr>"

text \<open>\<^verbatim>\<open>loadWorkspaces\<close>, given the reply to \<^verbatim>\<open>get_workspaces\<close> (read only if it is sent).\<close>

definition loadWorkspaces :: "workspace_entry list reply \<Rightarrow> ui_state \<Rightarrow> ui_state" where
  "loadWorkspaces r st =
     (if currentUsername st = [] \<or> currentAppPassword st = [] then st
      else let st = invoke (Get_workspaces (currentUsername st) (currentAppPassword st)) st
           in case r of
                Inr ws \<Rightarrow> populateWorkspaceSelect (st\<lparr>workspaces := ws\<rparr>)
              | Inl e \<Rightarrow>
                  showAuthStatus (''Failed to load workspaces: '' @ error_text e) ''error''
                    (console_error ''Failed to load workspaces:'' e st))"

text \<open>Sixteen bullets (U+2022), the placeholder of a stored password.\<close>

definition bullets :: string where
  "bullets = concat (replicate 16 [CHR 0xE2, CHR 0x80, CHR 0xA2])"

text \<open>
  \<^verbatim>\<open>loadSavedCredentials\<close>, given the replies to \<^verbatim>\<open>get_credentials\<close>,
  \<^verbatim>\<open>get_app_password\<close> and \<^verbatim>\<open>get_workspaces\<close>, each read only if the command is sent.
\<close>

definition loadSavedCredentials ::
  "string option reply \<Rightarrow> string option reply \<Rightarrow> workspace_entry list reply
   \<Rightarrow> ui_state \<Rightarrow> ui_state" where
  "loadSavedCredentials r_username r_password r_workspaces st =
     (let st = invoke Get_credentials st
      in case r_username of
           Inl e \<Rightarrow> console_error ''Failed to load credentials:'' e st
         | Inr None \<Rightarrow> st
         | Inr (Some username) \<Rightarrow>
             if username = [] then st
             else
               let st = st\<lparr>usernameInput := username, currentUsername := username\<rparr>;
                   st = invoke Get_app_password st
               in (case r_password of
                     Inl e \<Rightarrow> console_error ''Failed to load credentials:'' e st
                   | Inr None \<Rightarrow> st
                   | Inr (Some password) \<Rightarrow>
                       if password = [] then st
                       else
                         let st = st\<lparr>currentAppPassword := password,
                                       appPasswordInput_placeholder := bullets\<rparr>;
                             st = showAuthStatus ''Credentials saved'' ''success'' st
                         in loadWorkspaces r_workspaces st))"

subsection \<open>The list of monitored pipelines\<close>

text \<open>
  \<^verbatim>\<open>renderPipelineList\<close> groups the pipelines in a plain object \<^verbatim>\<open>grouped = {}\<close> keyed by
  project name (workspace when there is none). A key that names a property every object
  inherits is found truthy before any group was stored under it, so no array is created
  and the call of \<^verbatim>\<open>push\<close> on the inherited value raises a \<^verbatim>\<open>TypeError\<close>.
\<close>

definition inherited_keys :: "string list" where
  "inherited_keys =
     [''constructor'', ''hasOwnProperty'', ''isPrototypeOf'', ''propertyIsEnumerable'',
      ''toLocaleString'', ''toString'', ''valueOf'', ''__proto__'', ''__defineGetter__'',
      ''__defineSetter__'', ''__lookupGetter__'', ''__lookupSetter__'']"

definition group_key :: "pipeline \<Rightarrow> string" where
  "group_key p = or_else (project_name p) (workspace p)"

type_synonym grouped = "(string \<times> (pipeline \<times> nat) list) list"

text \<open>\<^verbatim>\<open>grouped[groupKey].push(member)\<close>, creating the group at the end when it is new.\<close>

fun group_push :: "grouped \<Rightarrow> string \<Rightarrow> pipeline \<times> nat \<Rightarrow> grouped" where
  "group_push [] k member = [(k, [member])]"
| "group_push ((k', members) # g) k member =
     (if k' = k then (k', members @ [member]) # g else (k', members) # group_push g k member)"

fun group_pipelines :: "(pipeline \<times> nat) list \<Rightarrow> grouped \<Rightarrow> js_error + grouped" where
  "group_pipelines [] g = Inr g"
| "group_pipelines ((p, index) # rest) g =
     (if group_key p \<in> set inherited_keys
      then Inl (TypeError ''grouped[groupKey].push is not a function'')
      else group_pipelines rest (group_push g (group_key p) (p, index)))"

text \<open>
  \<^verbatim>\<open>Object.keys\<close> lists the keys that are array indices first, in ascending order, then
  the others in the order they were created. An array index is the decimal text, without
  leading zero, of an integer below \<open>2^32 - 1\<close>.
\<close>

definition array_index :: "string \<Rightarrow> nat option" where
  "array_index k =
     (if k = [] then None
      else if \<not> list_all is_digit k then None
      else if hd k = CHR ''0'' \<and> tl k \<noteq> [] then None
      else if decimal_value k < 2 ^ 32 - 1 then Some (decimal_value k) else None)"

definition object_keys_order :: "grouped \<Rightarrow> grouped" where
  "object_keys_order g =
     map snd (sort_key fst
                (List.map_filter (\<lambda>e. map_option (\<lambda>n. (n, e)) (array_index (fst e))) g))
     @ filter (\<lambda>e. array_index (fst e) = None) g"

text \<open>The markup of an item (lines 366 to 369).\<close>

definition item_markup :: "pipeline \<Rightarrow> nat \<Rightarrow> string" where
  \<open>item_markup p index =
     ''\<newline>                <span class="pipeline-name">'' @ or_else (repo_name p) (repo_slug p)
     @ ''</span>\<newline>                <button type="button" class="remove-btn" data-index="''
     @ decimal index @ ''">Remove</button>\<newline>            ''\<close>

text \<open>
  The second loop of \<^verbatim>\<open>renderPipelineList\<close>, over the list element's children so far.
  Each item is appended after the listener is attached to its button; with no button
  found, \<^verbatim>\<open>addEventListener\<close> is read from \<^verbatim>\<open>null\<close> and the loop ends there with a
  \<^verbatim>\<open>TypeError\<close>, the children appended so far staying in the list.
\<close>

fun render_members ::
  "button_lookup \<Rightarrow> (pipeline \<times> nat) list \<Rightarrow> list_item list \<Rightarrow> js_error option \<times> list_item list"
where
  "render_members button_found [] children = (None, children)"
| "render_members button_found ((p, index) # rest) children =
     (if button_found (item_markup p index)
      then render_members button_found rest (children @ [Pipeline_item (item_markup p index) index])
      else (Some (TypeError ''Cannot read properties of null (reading 'addEventListener')''),
            children))"

fun render_groups ::
  "button_lookup \<Rightarrow> grouped \<Rightarrow> list_item list \<Rightarrow> js_error option \<times> list_item list"
where
  "render_groups button_found [] children = (None, children)"
| "render_groups button_found ((projectName, members) # groups) children =
     (case render_members button_found members (children @ [Header_item projectName]) of
        (Some e, children) \<Rightarrow> (Some e, children)
      | (None, children) \<Rightarrow> render_groups button_found groups children)"

text \<open>
  \<^verbatim>\<open>renderPipelineList\<close>; the first component is the exception it raises, if any. The
  list element was emptied before the grouping, and stays empty when the grouping raises.
\<close>

definition renderPipelineList :: "button_lookup \<Rightarrow> ui_state \<Rightarrow> js_error option \<times> ui_state" where
  "renderPipelineList button_found st =
     (let st = st\<lparr>pipelineList := []\<rparr>
      in if monitoredPipelines st = [] then (None, st\<lparr>pipelineList := [Empty_item]\<rparr>)
         else case group_pipelines
                     (zip (monitoredPipelines st) [0..<length (monitoredPipelines st)]) [] of
                Inl e \<Rightarrow> (Some e, st)
              | Inr grouped \<Rightarrow>
                  (case render_groups button_found (object_keys_order grouped) [] of
                     (raised, children) \<Rightarrow> (raised, st\<lparr>pipelineList := children\<rparr>)))"

text \<open>\<^verbatim>\<open>loadMonitoredPipelines\<close>, given the reply to \<^verbatim>\<open>get_monitored_pipelines\<close>.\<close>

definition loadMonitoredPipelines ::
  "button_lookup \<Rightarrow> pipeline list reply \<Rightarrow> ui_state \<Rightarrow> ui_state" where
  "loadMonitoredPipelines button_found r st =
     (let st = invoke Get_monitored_pipelines st
      in case r of
           Inl e \<Rightarrow> console_error ''Failed to load monitored pipelines:'' e st
         | Inr ps \<Rightarrow>
             (case renderPipelineList button_found (st\<lparr>monitoredPipelines := ps\<rparr>) of
                (None, st) \<Rightarrow> st
              | (Some e, st) \<Rightarrow> console_error ''Failed to load monitored pipelines:'' e st))"

text \<open>
  The values \<^verbatim>\<open>addMonitoredPipeline\<close> reads from the three drop-downs.
  \<^verbatim>\<open>projectName\<close> is \<^verbatim>\<open>null\<close> when no project option is selected or its text is empty.
\<close>

definition selected_workspace :: "ui_state \<Rightarrow> string" where
  "selected_workspace st = select_value (workspaceSelect st)"

definition selected_project_key :: "ui_state \<Rightarrow> string" where
  "selected_project_key st = select_value (projectSelect st)"

definition selected_project_name :: "ui_state \<Rightarrow> string option" where
  "selected_project_name st =
     (case selected_option (projectSelect st) of
        None \<Rightarrow> None
      | Some (v, t) \<Rightarrow> if option_text t = [] then None else Some (option_text t))"

definition selected_repo_slug :: "ui_state \<Rightarrow> string" where
  "selected_repo_slug st = select_value (repoSelect st)"

text \<open>The duplicate check of lines 304 to 306.\<close>

definition already_monitored :: "ui_state \<Rightarrow> bool" where
  "already_monitored st =
     list_ex (\<lambda>p. workspace p = selected_workspace st \<and> repo_slug p = selected_repo_slug st)
       (monitoredPipelines st)"

text \<open>The entry of lines 313 to 320, for the selected repository option's text.\<close>

definition new_entry :: "ui_state \<Rightarrow> string \<Rightarrow> pipeline" where
  "new_entry st repoName =
     \<lparr>workspace = selected_workspace st,
      project_key = Some (selected_project_key st),
      project_name = selected_project_name st,
      repo_slug = selected_repo_slug st,
      repo_name = Some repoName,
      branch = None\<rparr>"

text \<open>The \<^verbatim>\<open>catch\<close> block of \<^verbatim>\<open>addMonitoredPipeline\<close>.\<close>

definition add_failed :: "js_error \<Rightarrow> ui_state \<Rightarrow> ui_state" where
  "add_failed e st =
     (let st = showNotification (''Failed to save: '' @ error_text e) ''error'' st
      in st\<lparr>monitoredPipelines := butlast (monitoredPipelines st)\<rparr>)"

text \<open>
  \<^verbatim>\<open>addMonitoredPipeline\<close> is suspended at its \<^verbatim>\<open>await\<close> (line 323) after it has pushed
  the entry and sent the list; the Add button stays enabled, and any handler of the window
  may run before the reply arrives. The function is therefore modelled in its two
  halves. A call either returns at once, or is left awaiting the reply.
\<close>

datatype call_state = Returned ui_state | Awaiting ui_state

text \<open>
  \<^verbatim>\<open>addMonitoredPipeline\<close> up to its \<^verbatim>\<open>await\<close>. With no repository option selected,
  reading the option's text raises before anything is written, and the promise rejects:
  \<open>Inl\<close>.
\<close>

definition addMonitoredPipeline :: "ui_state \<Rightarrow> js_error + call_state" where
  "addMonitoredPipeline st =
     (case selected_option (repoSelect st) of
        None \<Rightarrow> Inl (TypeError ''Cannot read properties of undefined (reading 'text')'')
      | Some (v, t) \<Rightarrow>
          if selected_workspace st = [] \<or> selected_project_key st = [] \<or> selected_repo_slug st = []
          then Inr (Returned
                 (showNotification ''Please select workspace, project, and repository'' ''error'' st))
          else if already_monitored st
          then Inr (Returned
                 (showNotification ''This pipeline is already being monitored'' ''error'' st))
          else
            let st = st\<lparr>monitoredPipelines := monitoredPipelines st @ [new_entry st (option_text t)]\<rparr>
            in Inr (Awaiting (invoke (Save_monitored_pipelines (monitoredPipelines st)) st)))"

text \<open>
  \<^verbatim>\<open>addMonitoredPipeline\<close> from its \<^verbatim>\<open>await\<close> on (lines 324 to 333), given the reply to
  \<^verbatim>\<open>save_monitored_pipelines\<close> and the window as it is when the reply arrives.
\<close>

definition addMonitoredPipeline_resumed ::
  "button_lookup \<Rightarrow> unit reply \<Rightarrow> ui_state \<Rightarrow> ui_state" where
  "addMonitoredPipeline_resumed button_found r st =
     (case r of
        Inl e \<Rightarrow> add_failed e st
      | Inr u \<Rightarrow>
          (case renderPipelineList button_found st of
             (Some e, st) \<Rightarrow> add_failed e st
           | (None, st) \<Rightarrow>
               let st = showNotification ''Pipeline added!'' ''success'' st;
                   st = st\<lparr>repoSelect := set_select_value [] (repoSelect st)\<rparr>
               in st\<lparr>addPipelineBtn_disabled := True\<rparr>))"

text \<open>
  The user picks the repository option at an index, and the \<^verbatim>\<open>change\<close> handler of the
  drop-down (lines 127 to 129) enables the Add button when the option has a value.
\<close>

definition repo_chosen :: "nat \<Rightarrow> ui_state \<Rightarrow> ui_state" where
  "repo_chosen i st =
     (let st = st\<lparr>repoSelect := (repoSelect st)\<lparr>selectedIndex := Some i\<rparr>\<rparr>
      in st\<lparr>addPipelineBtn_disabled := (select_value (repoSelect st) = [])\<rparr>)"

text \<open>
  \<^verbatim>\<open>removePipeline\<close>, given the reply to \<^verbatim>\<open>save_monitored_pipelines\<close>.
  \<^verbatim>\<open>splice(index, 1)\<close> removes nothing when the index is past the end.
\<close>

definition removePipeline :: "button_lookup \<Rightarrow> nat \<Rightarrow> unit reply \<Rightarrow> ui_state \<Rightarrow> ui_state" where
  "removePipeline button_found index r st =
     (let st = st\<lparr>monitoredPipelines :=
                    take index (monitoredPipelines st) @ drop (Suc index) (monitoredPipelines st)\<rparr>;
          st = invoke (Save_monitored_pipelines (monitoredPipelines st)) st
      in case r of
           Inl e \<Rightarrow> showNotification (''Failed to remove: '' @ error_text e) ''error'' st
         | Inr u \<Rightarrow>
             (case renderPipelineList button_found st of
                (Some e, st) \<Rightarrow> showNotification (''Failed to remove: '' @ error_text e) ''error'' st
              | (None, st) \<Rightarrow> showNotification ''Pipeline removed'' ''success'' st))"

subsection \<open>Manual refresh\<close>

text \<open>The click handler of the refresh button (lines 138 to 141).\<close>

definition refresh_click :: "ui_state \<Rightarrow> ui_state" where
  \<open>refresh_click st =
     invoke Trigger_refresh (st\<lparr>statusDetails := ''<p class="loading">Refreshing...</p>''\<rparr>)\<close>

text \<open>
  Modelled from the spec: the Poll Scheduler that serves \<^verbatim>\<open>trigger_refresh\<close>. It belongs
  to the backend, which is not among the sources; the script only sends the command.
  The number of ticks in flight is counted, so that a second tick started over a running
  one would show, and one manual request can be remembered.
\<close>

record scheduler =
  ticks_in_flight :: nat
  manual_pending :: bool

text \<open>Modelled from the spec: the scheduler at start, no tick in flight, nothing pending.\<close>

definition idle :: scheduler where
  "idle = \<lparr>ticks_in_flight = 0, manual_pending = False\<rparr>"

text \<open>
  Modelled from the spec: a tick starts; the pending manual request is "consumed by the
  next natural or manual tick".
\<close>

definition start_tick :: "scheduler \<Rightarrow> scheduler" where
  "start_tick s = \<lparr>ticks_in_flight = Suc (ticks_in_flight s), manual_pending = False\<rparr>"

text \<open>
  Modelled from the spec: \<^verbatim>\<open>triggerManualTick()\<close> "executes immediately if no tick is in
  flight, or is coalesced into a no-op if one is already running (at most one pending
  manual request is remembered ...)".
\<close>

definition triggerManualTick :: "scheduler \<Rightarrow> scheduler" where
  "triggerManualTick s = (if ticks_in_flight s = 0 then start_tick s else s\<lparr>manual_pending := True\<rparr>)"

text \<open>
  Modelled from the spec: the interval timer. "Ticks are strictly serialized - no two ticks
  execute concurrently, enforced by a single-tick-in-flight lock/flag", so an expiry
  during a tick starts nothing.
\<close>

definition timer_fires :: "scheduler \<Rightarrow> scheduler" where
  "timer_fires s = (if ticks_in_flight s = 0 then start_tick s else s)"

text \<open>Modelled from the spec: the tick in flight, if any, completes.\<close>

definition tick_completes :: "scheduler \<Rightarrow> scheduler" where
  "tick_completes s =
     (if ticks_in_flight s = 0 then s else s\<lparr>ticks_in_flight := ticks_in_flight s - 1\<rparr>)"

text \<open>
  What can happen, in any order: a click on the refresh button, which reaches the scheduler
  as one manual trigger; the interval timer; the end of the tick in flight.
\<close>

datatype event = Refresh_click | Timer | Tick_done

fun step :: "ui_state \<times> scheduler \<Rightarrow> event \<Rightarrow> ui_state \<times> scheduler" where
  "step (st, s) Refresh_click = (refresh_click st, triggerManualTick s)"
| "step (st, s) Timer = (st, timer_fires s)"
| "step (st, s) Tick_done = (st, tick_completes s)"

text \<open>The window and the scheduler after a sequence of events, from the start.\<close>

definition run :: "event list \<Rightarrow> ui_state \<times> scheduler" where
  "run evs = foldl step (initial_state, idle) evs"
subsection \<open>Notions the properties use, and sample inputs\<close>

text \<open>The triple by which the spec identifies a monitored target.\<close>

definition target_key :: "pipeline \<Rightarrow> string \<times> string \<times> string option" where
  "target_key p = (workspace p, repo_slug p, branch p)"

text \<open>The triple of the pipeline an add would create: the selection, with no branch.\<close>

definition selected_key :: "ui_state \<Rightarrow> string \<times> string \<times> string option" where
  "selected_key st = (selected_workspace st, selected_repo_slug st, None)"

text \<open>Workspace, project and repository are all selected (the test of line 298 fails).\<close>

definition selection_complete :: "ui_state \<Rightarrow> bool" where
  "selection_complete st =
     (selected_workspace st \<noteq> [] \<and> selected_project_key st \<noteq> [] \<and> selected_repo_slug st \<noteq> [])"

text \<open>
  Samples: a repository monitored on a branch, the same with no branch, a status with two
  failed pipelines, and a window where workspace \<^verbatim>\<open>acme\<close> and project \<^verbatim>\<open>PLAT\<close> are
  selected, with the repository option at a given index and a given list.
\<close>

definition api_release :: pipeline where
  "api_release =
     \<lparr>workspace = ''acme'', project_key = Some ''PLAT'', project_name = Some ''Platform'',
      repo_slug = ''api'', repo_name = Some ''API'', branch = Some ''release''\<rparr>"

definition api_any_branch :: pipeline where
  "api_any_branch = api_release\<lparr>branch := None\<rparr>"

definition two_failed :: aggregate_status where
  "two_failed =
     \<lparr>is_healthy = False, total_monitored = 3, in_progress_count = 0,
      failed_pipelines =
        [\<lparr>failed_repo_name = Some ''api'', failed_repo_slug = ''api-svc'',
          failure_reason = ''step 2 exited 1''\<rparr>,
         \<lparr>failed_repo_name = None, failed_repo_slug = ''web'',
          failure_reason = ''tests failed''\<rparr>],
      last_checked = ''12:00''\<rparr>"

definition acme_window :: "pipeline list \<Rightarrow> nat \<Rightarrow> ui_state" where
  "acme_window ps repo_index =
     initial_state
       \<lparr>currentUsername := ''dev'', currentAppPassword := ''token'', monitoredPipelines := ps,
        workspaceSelect :=
          \<lparr>options = [([], ''Select Workspace''), (''acme'', ''Acme'')],
           selectedIndex = Some 1, disabled = False\<rparr>,
        projectSelect :=
          \<lparr>options = [([], ''Select Project''), (''PLAT'', ''Platform'')],
           selectedIndex = Some 1, disabled = False\<rparr>,
        repoSelect :=
          \<lparr>options = [([], ''Select Repository''), (''api'', ''API''), (''web'', ''Web'')],
           selectedIndex = Some repo_index, disabled = False\<rparr>\<rparr>"

text \<open>
  The entry that adding \<^verbatim>\<open>web\<close> in that window pushes, and a lookup that finds the remove
  button exactly when the markup has the four tags of the template and no other: it
  stands for the browser on names without markup.
\<close>

definition web_added :: pipeline where
  "web_added =
     \<lparr>workspace = ''acme'', project_key = Some ''PLAT'', project_name = Some ''Platform'',
      repo_slug = ''web'', repo_name = Some ''Web'', branch = None\<rparr>"

definition plain_lookup :: button_lookup where
  "plain_lookup markup = (length (filter (\<lambda>c. c = CHR ''<'') markup) = 4)"

text \<open>
  Two adds in a row, starting from an empty list: the window while the save of
  \<^verbatim>\<open>api\<close> is awaited, and the window after \<^verbatim>\<open>web\<close> was chosen and added as well, with
  both saves awaited.
\<close>

definition first_add_awaiting :: ui_state where
  "first_add_awaiting =
     (acme_window [] 1)
       \<lparr>monitoredPipelines := [api_any_branch],
        invoked := [Save_monitored_pipelines [api_any_branch]]\<rparr>"

definition second_add_awaiting :: ui_state where
  "second_add_awaiting =
     (repo_chosen 2 first_add_awaiting)
       \<lparr>monitoredPipelines := [api_any_branch, web_added],
        invoked := [Save_monitored_pipelines [api_any_branch],
                    Save_monitored_pipelines [api_any_branch, web_added]]\<rparr>"

section \<open>Properties\<close>

text \<open>The definitions that evaluate the sample inputs.\<close>

lemmas sample_defs =
  acme_window_def api_release_def api_any_branch_def initial_state_def empty_select_def
  selected_key_def target_key_def selected_workspace_def selected_repo_slug_def
  selected_project_key_def selected_project_name_def select_value_def selected_option_def
  selection_complete_def already_monitored_def new_entry_def web_added_def
  first_add_awaiting_def second_add_awaiting_def repo_chosen_def
  group_key_def inherited_keys_def option_text_def ascii_whitespace_def

subsection \<open>The status display\<close>

text \<open>
  C10. Given \<^verbatim>\<open>null\<close> or \<^verbatim>\<open>undefined\<close>, \<^verbatim>\<open>updateStatusDisplay\<close> writes the
  "No status available" paragraph and the gray indicator and leaves everything else as it
  was. The function is total and the outcome is the same for both absent values: no field
  of a status is involved.
\<close>

theorem updateStatusDisplay_absent:
  "updateStatusDisplay JNull st =
     st\<lparr>statusDetails := ''<p>No status available</p>'', statusIndicator := ''status-gray''\<rparr>
   \<and> updateStatusDisplay JUndefined st =
     st\<lparr>statusDetails := ''<p>No status available</p>'', statusIndicator := ''status-gray''\<rparr>"
  by simp

lemma healthy_html_prefix:
  \<open>prefix (''<p class="healthy">All '' @ decimal (total_monitored s) @ '' pipeline(s) healthy</p>'')
     (healthy_html s)\<close>
  by (simp add: healthy_html_def Let_def prefix_def)

lemma failed_html_not_healthy:
  \<open>\<not> prefix (''<p class="healthy">All '' @ t) (failed_html s)\<close>
  by (simp add: failed_html_def Let_def)

lemma failed_html_list:
  \<open>sublist (''<ul class="failed-list">'' @ concat (map failed_entry (failed_pipelines s)) @ ''</ul>'')
     (failed_html s)\<close>
proof -
  let ?before = \<open>''\<newline>            <p class="failed">'' @ decimal (length (failed_pipelines s))
                  @ '' pipeline(s) failed</p>\<newline>            ''\<close>
  let ?after = \<open>''\<newline>            <p class="last-checked">Last checked: '' @ last_checked s
                 @ ''</p>\<newline>        ''\<close>
  have \<open>failed_html s =
          ?before @ (''<ul class="failed-list">'' @ concat (map failed_entry (failed_pipelines s))
                     @ ''</ul>'') @ ?after\<close>
    by (simp add: failed_html_def Let_def)
  then show ?thesis
    unfolding sublist_def by blast
qed

text \<open>
  C3. For a status object, the indicator is \<^verbatim>\<open>status-green\<close> exactly when \<open>is_healthy\<close>
  holds and \<^verbatim>\<open>status-red\<close> exactly when it does not; the details start with the
  "All n pipeline(s) healthy" paragraph exactly when \<open>is_healthy\<close> holds, and otherwise
  contain the list of failed pipelines.
\<close>

theorem updateStatusDisplay_health:
  \<open>(statusIndicator (updateStatusDisplay (JObj s) st) = ''status-green'') = is_healthy s
   \<and> (statusIndicator (updateStatusDisplay (JObj s) st) = ''status-red'') = (\<not> is_healthy s)
   \<and> prefix (''<p class="healthy">All '' @ decimal (total_monitored s) @ '' pipeline(s) healthy</p>'')
        (statusDetails (updateStatusDisplay (JObj s) st)) = is_healthy s
   \<and> (\<not> is_healthy s \<longrightarrow>
        sublist (''<ul class="failed-list">'' @ concat (map failed_entry (failed_pipelines s))
                 @ ''</ul>'')
          (statusDetails (updateStatusDisplay (JObj s) st)))\<close>
  using healthy_html_prefix [of s] failed_html_not_healthy [of _ s] failed_html_list [of s]
  by (simp add: Let_def)

theorem updateStatusDisplay_health_witness:
  \<open>\<not> is_healthy two_failed
   \<and> statusIndicator (updateStatusDisplay (JObj two_failed) initial_state) = ''status-red''
   \<and> sublist ''<ul class="failed-list"><li>api - step 2 exited 1</li><li>web - tests failed</li></ul>''
        (statusDetails (updateStatusDisplay (JObj two_failed) initial_state))\<close>
  using updateStatusDisplay_health [of two_failed initial_state]
  by (simp add: two_failed_def failed_entry_def)

text \<open>
  C4. For an unhealthy status the details are the count paragraph, then one \<^verbatim>\<open><li>\<close>
  per element of \<open>failed_pipelines\<close>, in the order of that list and nothing between
  them, then the closing of the list and the time of the last check. Each entry shows the
  repository name, or the slug when the name is null or empty, then the failure reason.
\<close>

theorem failed_list_in_order:
  \<open>\<not> is_healthy s \<Longrightarrow>
   statusDetails (updateStatusDisplay (JObj s) st) =
     ''\<newline>            <p class="failed">'' @ decimal (length (failed_pipelines s))
     @ '' pipeline(s) failed</p>\<newline>            <ul class="failed-list">''
     @ concat (map (\<lambda>p. ''<li>''
                     @ (case failed_repo_name p of
                          None \<Rightarrow> failed_repo_slug p
                        | Some n \<Rightarrow> if n = [] then failed_repo_slug p else n)
                     @ '' - '' @ failure_reason p @ ''</li>'')
                (failed_pipelines s))
     @ ''</ul>\<newline>            <p class="last-checked">Last checked: '' @ last_checked s
     @ ''</p>\<newline>        ''\<close>
proof -
  have entry: "failed_entry =
                 (\<lambda>p. ''<li>''
                     @ (case failed_repo_name p of
                          None \<Rightarrow> failed_repo_slug p
                        | Some n \<Rightarrow> if n = [] then failed_repo_slug p else n)
                     @ '' - '' @ failure_reason p @ ''</li>'')"
    by (rule ext) (simp add: failed_entry_def split: option.split)
  assume "\<not> is_healthy s"
  then show ?thesis
    by (simp add: Let_def failed_html_def entry)
qed

theorem failed_list_in_order_witness:
  \<open>\<not> is_healthy two_failed \<and>
   statusDetails (updateStatusDisplay (JObj two_failed) initial_state) =
     ''\<newline>            <p class="failed">2 pipeline(s) failed</p>\<newline>            <ul class="failed-list"><li>api - step 2 exited 1</li><li>web - tests failed</li></ul>\<newline>            <p class="last-checked">Last checked: 12:00</p>\<newline>        ''\<close>
proof -
  have unhealthy: "\<not> is_healthy two_failed"
    by (simp add: two_failed_def)
  have two: "decimal (Suc (Suc 0)) = ''2''"
    by (simp add: decimal.simps digit_char_def)
  show ?thesis
    using unhealthy failed_list_in_order [OF unhealthy, of initial_state]
    by (simp add: two_failed_def two)
qed

text \<open>
  C5. When \<^verbatim>\<open>get_pipeline_statuses\<close> rejects, or answers \<^verbatim>\<open>null\<close> or \<^verbatim>\<open>undefined\<close>,
  \<^verbatim>\<open>loadCurrentStatus\<close> leaves the status details and the indicator as they were.
\<close>

theorem loadCurrentStatus_keeps_display:
  "r = Inl e \<or> r = Inr JNull \<or> r = Inr JUndefined \<Longrightarrow>
   statusDetails (loadCurrentStatus r st) = statusDetails st
   \<and> statusIndicator (loadCurrentStatus r st) = statusIndicator st"
  by (auto simp: loadCurrentStatus_def invoke_def console_error_def)

theorem loadCurrentStatus_keeps_display_witness:
  "statusDetails (loadCurrentStatus (Inl (Rejected ''network error''))
                    (updateStatusDisplay (JObj two_failed) initial_state))
     = statusDetails (updateStatusDisplay (JObj two_failed) initial_state)
   \<and> statusIndicator (loadCurrentStatus (Inl (Rejected ''network error''))
                    (updateStatusDisplay (JObj two_failed) initial_state))
     = ''status-red''"
  using loadCurrentStatus_keeps_display
    [of "Inl (Rejected ''network error'')" "Rejected ''network error''"
        "updateStatusDisplay (JObj two_failed) initial_state"]
  by (simp add: two_failed_def)

subsection \<open>Rendering the list of monitored pipelines\<close>

lemma render_members_raised:
  "fst (render_members button_found members children) = None \<Longrightarrow>
   list_all (\<lambda>(p, index). button_found (item_markup p index)) members"
  by (induction members arbitrary: children) (auto split: if_splits)

text \<open>Drawing the list changes the list element and nothing else.\<close>

lemma renderPipelineList_frame:
  "snd (renderPipelineList button_found st)
     = st\<lparr>pipelineList := pipelineList (snd (renderPipelineList button_found st))\<rparr>"
  by (simp add: renderPipelineList_def Let_def split: sum.split prod.split)

lemma renderPipelineList_keeps:
  "monitoredPipelines (snd (renderPipelineList button_found st)) = monitoredPipelines st"
  "notifications (snd (renderPipelineList button_found st)) = notifications st"
  "invoked (snd (renderPipelineList button_found st)) = invoked st"
  by (subst renderPipelineList_frame, simp)+

subsection \<open>Adding a pipeline\<close>

lemma add_incomplete:
  assumes "selected_option (repoSelect st) = Some opt" and "\<not> selection_complete st"
  shows "addMonitoredPipeline st =
           Inr (Returned
             (showNotification ''Please select workspace, project, and repository'' ''error'' st))"
  using assms by (cases opt) (auto simp: addMonitoredPipeline_def selection_complete_def)

lemma add_duplicate:
  assumes "selected_option (repoSelect st) = Some opt" and "selection_complete st"
    and "already_monitored st"
  shows "addMonitoredPipeline st =
           Inr (Returned (showNotification ''This pipeline is already being monitored'' ''error'' st))"
  using assms by (cases opt) (simp add: addMonitoredPipeline_def selection_complete_def)

lemma add_awaits:
  assumes "selected_option (repoSelect st) = Some opt" and "selection_complete st"
    and "\<not> already_monitored st"
  shows "addMonitoredPipeline st =
           Inr (Awaiting
             (st\<lparr>monitoredPipelines := monitoredPipelines st @ [new_entry st (option_text (snd opt))],
                 invoked := invoked st
                    @ [Save_monitored_pipelines
                         (monitoredPipelines st @ [new_entry st (option_text (snd opt))])]\<rparr>))"
  using assms
  by (cases opt) (simp add: addMonitoredPipeline_def selection_complete_def invoke_def Let_def)

lemma resumed_rejected:
  "addMonitoredPipeline_resumed button_found (Inl e) st =
     st\<lparr>notifications := notifications st @ [(''Failed to save: '' @ error_text e, ''error'')],
        monitoredPipelines := butlast (monitoredPipelines st)\<rparr>"
  by (simp add: addMonitoredPipeline_resumed_def add_failed_def showNotification_def)

lemma resumed_accepted:
  assumes "fst (renderPipelineList button_found st) = None"
  shows "monitoredPipelines (addMonitoredPipeline_resumed button_found (Inr u) st)
           = monitoredPipelines st"
    and "notifications (addMonitoredPipeline_resumed button_found (Inr u) st)
           = notifications st @ [(''Pipeline added!'', ''success'')]"
  using assms renderPipelineList_keeps [of button_found st]
  by (cases "renderPipelineList button_found st";
      simp add: addMonitoredPipeline_resumed_def showNotification_def)+

lemma resumed_list:
  "monitoredPipelines (addMonitoredPipeline_resumed button_found r st) = monitoredPipelines st
   \<or> monitoredPipelines (addMonitoredPipeline_resumed button_found r st)
       = butlast (monitoredPipelines st)"
proof (cases r)
  case (Inl e)
  then show ?thesis by (simp add: resumed_rejected)
next
  case (Inr u)
  obtain raised st' where drawn: "renderPipelineList button_found st = (raised, st')"
    by (cases "renderPipelineList button_found st")
  with renderPipelineList_keeps(1) [of button_found st]
  have "monitoredPipelines st' = monitoredPipelines st"
    by simp
  with Inr drawn show ?thesis
    by (cases raised)
       (simp_all add: addMonitoredPipeline_resumed_def add_failed_def showNotification_def)
qed

lemma distinct_butlast_keys:
  "distinct (map f xs) \<Longrightarrow> distinct (map f (butlast xs))"
  by (simp add: map_butlast distinct_butlast)

text \<open>
  With nothing in between, the second half undoes the first when the save is rejected:
  the entry popped is the entry pushed.
\<close>

lemma add_undone_when_uninterrupted:
  assumes "addMonitoredPipeline st = Inr (Awaiting st')"
  shows "monitoredPipelines (addMonitoredPipeline_resumed button_found (Inl e) st')
           = monitoredPipelines st"
proof -
  from assms obtain opt where sel: "selected_option (repoSelect st) = Some opt"
    by (cases "selected_option (repoSelect st)") (auto simp: addMonitoredPipeline_def)
  show ?thesis
  proof (cases "selection_complete st \<and> \<not> already_monitored st")
    case True
    with assms sel show ?thesis
      by (auto simp: add_awaits resumed_rejected)
  next
    case False
    with assms sel show ?thesis
      by (cases "selection_complete st") (auto simp: add_incomplete add_duplicate)
  qed
qed

text \<open>
  C2, as amended. Whenever a repository option is selected:
  \<^item> if an entry of the list has the selected workspace and repository, under any branch
    (in particular if one has them with no branch, the triple of the pipeline the add
    would create), the call returns at once with an error shown, the list unchanged and
    nothing sent to the backend;
  \<^item> with workspace, project and repository all selected, the new entry (branch
    \<^verbatim>\<open>null\<close>) is pushed and the extended list sent to \<^verbatim>\<open>save_monitored_pipelines\<close>
    exactly when no entry has the selected workspace and repository;
  \<^item> when that save is accepted and the list is drawn again without an exception, the
    list is kept as it then is and the success is shown;
  \<^item> a list whose (workspace, repository, branch) triples are distinct stays so through
    either half of the add, whatever the reply.
\<close>

theorem add_unique_by_workspace_and_repository:
  assumes "selected_option (repoSelect st) = Some opt"
  shows
    "(let ws = select_value (workspaceSelect st);
          key = select_value (projectSelect st);
          repo = select_value (repoSelect st);
          entry = \<lparr>workspace = ws, project_key = Some key,
                   project_name =
                     (case selected_option (projectSelect st) of
                        None \<Rightarrow> None
                      | Some project \<Rightarrow>
                          if option_text (snd project) = [] then None
                          else Some (option_text (snd project))),
                   repo_slug = repo, repo_name = Some (option_text (snd opt)),
                   branch = None\<rparr>
      in ((ws, repo, None) \<in> set (map target_key (monitoredPipelines st))
            \<or> (ws, repo) \<in> set (map (\<lambda>p. (workspace p, repo_slug p)) (monitoredPipelines st))
          \<longrightarrow> (\<exists>m. addMonitoredPipeline st
                      = Inr (Returned (st\<lparr>notifications := notifications st @ [(m, ''error'')]\<rparr>))))
         \<and> (ws \<noteq> [] \<and> key \<noteq> [] \<and> repo \<noteq> [] \<longrightarrow>
               (addMonitoredPipeline st
                  = Inr (Awaiting
                      (st\<lparr>monitoredPipelines := monitoredPipelines st @ [entry],
                          invoked := invoked st
                             @ [Save_monitored_pipelines (monitoredPipelines st @ [entry])]\<rparr>)))
               = ((ws, repo)
                    \<notin> set (map (\<lambda>p. (workspace p, repo_slug p)) (monitoredPipelines st)))))
     \<and> (fst (renderPipelineList button_found st1) = None \<longrightarrow>
          monitoredPipelines (addMonitoredPipeline_resumed button_found (Inr ()) st1)
            = monitoredPipelines st1
          \<and> notifications (addMonitoredPipeline_resumed button_found (Inr ()) st1)
            = notifications st1 @ [(''Pipeline added!'', ''success'')])
     \<and> (distinct (map target_key (monitoredPipelines st)) \<longrightarrow>
          (\<forall>st'. addMonitoredPipeline st = Inr (Returned st')
                   \<or> addMonitoredPipeline st = Inr (Awaiting st') \<longrightarrow>
                 distinct (map target_key (monitoredPipelines st'))))
     \<and> (distinct (map target_key (monitoredPipelines st1)) \<longrightarrow>
          distinct (map target_key
                      (monitoredPipelines (addMonitoredPipeline_resumed button_found r st1))))"
proof -
  let ?ws = "select_value (workspaceSelect st)"
  let ?key = "select_value (projectSelect st)"
  let ?repo = "select_value (repoSelect st)"
  let ?pairs = "set (map (\<lambda>p. (workspace p, repo_slug p)) (monitoredPipelines st))"
  let ?entry = "new_entry st (option_text (snd opt))"
  have monitored: "already_monitored st = ((?ws, ?repo) \<in> ?pairs)"
    by (force simp: already_monitored_def selected_workspace_def selected_repo_slug_def
        list_ex_iff image_iff)
  have triple: "(?ws, ?repo, None) \<in> set (map target_key (monitoredPipelines st))
                  \<Longrightarrow> (?ws, ?repo) \<in> ?pairs"
    by (auto simp: target_key_def)
  have complete: "selection_complete st = (?ws \<noteq> [] \<and> ?key \<noteq> [] \<and> ?repo \<noteq> [])"
    by (simp add: selection_complete_def selected_workspace_def selected_project_key_def
        selected_repo_slug_def)
  have entry: "?entry = \<lparr>workspace = ?ws, project_key = Some ?key,
                   project_name =
                     (case selected_option (projectSelect st) of
                        None \<Rightarrow> None
                      | Some project \<Rightarrow>
                          if option_text (snd project) = [] then None
                          else Some (option_text (snd project))),
                   repo_slug = ?repo, repo_name = Some (option_text (snd opt)),
                   branch = None\<rparr>"
    by (simp add: new_entry_def selected_workspace_def selected_project_key_def
        selected_repo_slug_def selected_project_name_def split: option.split prod.split)
  have fresh: "target_key ?entry \<notin> set (map target_key (monitoredPipelines st))"
    if "(?ws, ?repo) \<notin> ?pairs"
    using that by (auto simp: entry target_key_def)
  have refused: "\<exists>m. addMonitoredPipeline st
                      = Inr (Returned (st\<lparr>notifications := notifications st @ [(m, ''error'')]\<rparr>))"
    if "(?ws, ?repo) \<in> ?pairs"
  proof (cases "selection_complete st")
    case True
    with that show ?thesis
      by (intro exI [of _ "''This pipeline is already being monitored''"])
         (simp add: add_duplicate [OF assms] monitored showNotification_def)
  next
    case False
    then show ?thesis
      by (intro exI [of _ "''Please select workspace, project, and repository''"])
         (simp add: add_incomplete [OF assms] showNotification_def)
  qed
  have pushed: "(addMonitoredPipeline st
                  = Inr (Awaiting
                      (st\<lparr>monitoredPipelines := monitoredPipelines st @ [?entry],
                          invoked := invoked st
                             @ [Save_monitored_pipelines (monitoredPipelines st @ [?entry])]\<rparr>)))
               = ((?ws, ?repo) \<notin> ?pairs)"
    if "selection_complete st"
  proof (cases "(?ws, ?repo) \<in> ?pairs")
    case True
    with that show ?thesis
      by (simp add: add_duplicate [OF assms] monitored)
  next
    case False
    with that show ?thesis
      by (simp add: add_awaits [OF assms] monitored)
  qed
  have kept: "distinct (map target_key (monitoredPipelines st'))"
    if "distinct (map target_key (monitoredPipelines st))"
      and "addMonitoredPipeline st = Inr (Returned st') \<or> addMonitoredPipeline st = Inr (Awaiting st')"
    for st'
  proof (cases "selection_complete st")
    case False
    with that show ?thesis
      by (auto simp: add_incomplete [OF assms] showNotification_def)
  next
    case True
    show ?thesis
    proof (cases "(?ws, ?repo) \<in> ?pairs")
      case dup: True
      with that True show ?thesis
        by (auto simp: add_duplicate [OF assms] monitored showNotification_def)
    next
      case False
      with that True fresh [OF False] show ?thesis
        by (auto simp: add_awaits [OF assms] monitored)
    qed
  qed
  have kept_resumed:
    "distinct (map target_key (monitoredPipelines (addMonitoredPipeline_resumed button_found r st1)))"
    if "distinct (map target_key (monitoredPipelines st1))"
    using that resumed_list [of button_found r st1] distinct_butlast_keys [of target_key]
    by auto
  from triple refused pushed kept kept_resumed resumed_accepted [of button_found st1 "()"]
  show ?thesis
    unfolding Let_def entry [symmetric] complete [symmetric]
    by blast
qed

theorem add_unique_by_workspace_and_repository_witness:
  "selected_option (repoSelect (acme_window [api_any_branch] 1)) = Some (''api'', ''API'')
   \<and> (''acme'', ''api'', None)
       \<in> set (map target_key (monitoredPipelines (acme_window [api_any_branch] 1)))
   \<and> (\<exists>m. addMonitoredPipeline (acme_window [api_any_branch] 1)
            = Inr (Returned ((acme_window [api_any_branch] 1)\<lparr>notifications := [(m, ''error'')]\<rparr>)))
   \<and> selected_option (repoSelect (acme_window [api_release] 2)) = Some (''web'', ''Web'')
   \<and> addMonitoredPipeline (acme_window [api_release] 2)
       = Inr (Awaiting
           ((acme_window [api_release] 2)
              \<lparr>monitoredPipelines := [api_release, web_added],
               invoked := [Save_monitored_pipelines [api_release, web_added]]\<rparr>))
   \<and> fst (renderPipelineList plain_lookup
            ((acme_window [api_release] 2)
              \<lparr>monitoredPipelines := [api_release, web_added],
               invoked := [Save_monitored_pipelines [api_release, web_added]]\<rparr>)) = None
   \<and> monitoredPipelines
         (addMonitoredPipeline_resumed plain_lookup (Inr ())
            ((acme_window [api_release] 2)
              \<lparr>monitoredPipelines := [api_release, web_added],
               invoked := [Save_monitored_pipelines [api_release, web_added]]\<rparr>))
       = [api_release, web_added]
   \<and> distinct (map target_key [api_release, web_added])"
proof -
  let ?dup = "acme_window [api_any_branch] 1"
  let ?new = "acme_window [api_release] 2"
  let ?awaiting = "?new\<lparr>monitoredPipelines := [api_release, web_added],
                        invoked := [Save_monitored_pipelines [api_release, web_added]]\<rparr>"
  have a: "selected_option (repoSelect ?dup) = Some (''api'', ''API'')"
    by (simp add: sample_defs)
  have b: "selected_option (repoSelect ?new) = Some (''web'', ''Web'')"
    by (simp add: sample_defs)
  have c: "(''acme'', ''api'', None) \<in> set (map target_key (monitoredPipelines ?dup))"
    by (simp add: sample_defs)
  have chosen:
    "select_value (workspaceSelect (acme_window ps i)) = ''acme''"
    "select_value (projectSelect (acme_window ps i)) = ''PLAT''"
    "selected_option (projectSelect (acme_window ps i)) = Some (''PLAT'', ''Platform'')"
    "select_value (repoSelect (acme_window ps (Suc 0))) = ''api''"
    "select_value (repoSelect (acme_window ps 2)) = ''web''"
    "monitoredPipelines (acme_window ps i) = ps"
    "invoked (acme_window ps i) = []"
    "notifications (acme_window ps i) = []" for ps i
    by (simp_all add: sample_defs)
  have texts: "option_text ''Platform'' = ''Platform''" "option_text ''Web'' = ''Web''"
    by (simp_all add: option_text_def ascii_whitespace_def)
  have d: "fst (renderPipelineList plain_lookup ?awaiting) = None"
    by (simp add: renderPipelineList_def chosen api_release_def web_added_def group_key_def
        inherited_keys_def object_keys_order_def array_index_def is_digit_def
        List.map_filter_def item_markup_def decimal.simps digit_char_def plain_lookup_def)
  have e: "distinct (map target_key [api_release, web_added])"
    by (simp add: target_key_def api_release_def web_added_def)
  from add_unique_by_workspace_and_repository [OF a, of plain_lookup ?awaiting "Inr ()"]
  have dup: "\<exists>m. addMonitoredPipeline ?dup
            = Inr (Returned (?dup\<lparr>notifications := [(m, ''error'')]\<rparr>))"
    using c by (simp add: Let_def chosen target_key_def api_any_branch_def api_release_def)
  from add_unique_by_workspace_and_repository [OF b, of plain_lookup ?awaiting "Inr ()"] d
  have new: "addMonitoredPipeline ?new = Inr (Awaiting ?awaiting)"
    and kept: "monitoredPipelines (addMonitoredPipeline_resumed plain_lookup (Inr ()) ?awaiting)
                 = [api_release, web_added]"
    by (simp_all add: Let_def chosen texts api_release_def web_added_def)
  from a b c d e dup new kept show ?thesis
    by blast
qed

text \<open>
  C2, as stated, fails: with \<^verbatim>\<open>acme/api\<close> monitored on branch \<^verbatim>\<open>release\<close>, no entry has
  the triple (acme, api, no branch) of the selection, yet the add is refused as a
  duplicate at once, before anything is sent.
\<close>

theorem add_same_repository_other_branch:
  "selected_key (acme_window [api_release] 1)
     \<notin> set (map target_key (monitoredPipelines (acme_window [api_release] 1)))
   \<and> addMonitoredPipeline (acme_window [api_release] 1)
     = Inr (Returned
         ((acme_window [api_release] 1)
            \<lparr>notifications := [(''This pipeline is already being monitored'', ''error'')]\<rparr>))"
  by (simp add: acme_window_def api_release_def initial_state_def empty_select_def
      selected_key_def target_key_def selected_workspace_def selected_repo_slug_def
      selected_project_key_def select_value_def selected_option_def
      addMonitoredPipeline_def already_monitored_def showNotification_def)

text \<open>
  C8, at the input that breaks it. From an empty list: \<^verbatim>\<open>api\<close> is added and its save is
  awaited; the Add button is still enabled; \<^verbatim>\<open>web\<close> is chosen and added, and the list holds
  both. Then the save of \<^verbatim>\<open>api\<close> is rejected: the \<^verbatim>\<open>pop()\<close> of the rollback takes \<^verbatim>\<open>web\<close>
  off, and \<^verbatim>\<open>api\<close>, whose save failed, stays in the list.
\<close>

theorem rollback_pops_the_later_add:
  "addMonitoredPipeline (acme_window [] 1) = Inr (Awaiting first_add_awaiting)
   \<and> addPipelineBtn_disabled (repo_chosen 2 first_add_awaiting) = False
   \<and> addMonitoredPipeline (repo_chosen 2 first_add_awaiting) = Inr (Awaiting second_add_awaiting)
   \<and> monitoredPipelines second_add_awaiting = [api_any_branch, web_added]
   \<and> monitoredPipelines
         (addMonitoredPipeline_resumed button_found (Inl (Rejected ''disk full''))
            second_add_awaiting)
       = [api_any_branch]
   \<and> notifications
         (addMonitoredPipeline_resumed button_found (Inl (Rejected ''disk full''))
            second_add_awaiting)
       = [(''Failed to save: disk full'', ''error'')]"
  by (simp add: sample_defs addMonitoredPipeline_def invoke_def resumed_rejected Let_def)

subsection \<open>Removing a pipeline\<close>

text \<open>
  C9. \<^verbatim>\<open>removePipeline\<close> takes the entry at the index out of the list before it sends
  the list to \<^verbatim>\<open>save_monitored_pipelines\<close>. When the save rejects, the error is shown
  and nothing is put back: the list is one entry shorter than before the call, so it
  differs from the list the backend last accepted.
\<close>

theorem remove_stands_when_save_fails:
  assumes "index < length (monitoredPipelines st)"
  shows "removePipeline button_found index (Inl e) st =
           st\<lparr>monitoredPipelines :=
                  take index (monitoredPipelines st) @ drop (Suc index) (monitoredPipelines st),
               invoked := invoked st
                  @ [Save_monitored_pipelines
                       (take index (monitoredPipelines st) @ drop (Suc index) (monitoredPipelines st))],
               notifications := notifications st
                  @ [(''Failed to remove: '' @ error_text e, ''error'')]\<rparr>
         \<and> Suc (length (monitoredPipelines (removePipeline button_found index (Inl e) st)))
              = length (monitoredPipelines st)
         \<and> monitoredPipelines (removePipeline button_found index (Inl e) st) \<noteq> monitoredPipelines st"
proof -
  have result: "removePipeline button_found index (Inl e) st =
           st\<lparr>monitoredPipelines :=
                  take index (monitoredPipelines st) @ drop (Suc index) (monitoredPipelines st),
               invoked := invoked st
                  @ [Save_monitored_pipelines
                       (take index (monitoredPipelines st) @ drop (Suc index) (monitoredPipelines st))],
               notifications := notifications st
                  @ [(''Failed to remove: '' @ error_text e, ''error'')]\<rparr>"
    by (simp add: removePipeline_def invoke_def showNotification_def Let_def)
  from assms have shorter:
    "Suc (length (monitoredPipelines (removePipeline button_found index (Inl e) st)))
       = length (monitoredPipelines st)"
    by (simp add: result)
  then have "length (monitoredPipelines (removePipeline button_found index (Inl e) st))
               \<noteq> length (monitoredPipelines st)"
    by arith
  then have "monitoredPipelines (removePipeline button_found index (Inl e) st) \<noteq> monitoredPipelines st"
    by metis
  with result shorter show ?thesis
    by blast
qed

theorem remove_stands_when_save_fails_witness:
  "(0::nat) < length (monitoredPipelines (acme_window [api_release, api_any_branch] 0))
   \<and> monitoredPipelines
         (removePipeline plain_lookup 0 (Inl (Rejected ''disk full'')) (acme_window [api_release, api_any_branch] 0))
       = [api_any_branch]
   \<and> invoked
         (removePipeline plain_lookup 0 (Inl (Rejected ''disk full'')) (acme_window [api_release, api_any_branch] 0))
       = [Save_monitored_pipelines [api_any_branch]]
   \<and> notifications
         (removePipeline plain_lookup 0 (Inl (Rejected ''disk full'')) (acme_window [api_release, api_any_branch] 0))
       = [(''Failed to remove: disk full'', ''error'')]"
proof -
  have g: "monitoredPipelines (acme_window ps i) = ps"
    "invoked (acme_window ps i) = []" "notifications (acme_window ps i) = []" for ps i
    by (simp_all add: acme_window_def initial_state_def)
  have h: "(0::nat) < length (monitoredPipelines (acme_window [api_release, api_any_branch] 0))"
    by (simp add: g)
  from h remove_stands_when_save_fails [OF h, of plain_lookup "Rejected ''disk full''"]
  show ?thesis
    by (simp add: g)
qed



subsection \<open>Credentials\<close>

text \<open>
  C6. When \<^verbatim>\<open>get_credentials\<close> or \<^verbatim>\<open>get_app_password\<close> answers \<^verbatim>\<open>null\<close> or the
  empty string, \<^verbatim>\<open>loadSavedCredentials\<close> shows nothing (the authentication status and
  the notifications are as before) and sends at most the two credential queries, never
  \<^verbatim>\<open>get_workspaces\<close>. \<^verbatim>\<open>loadWorkspaces\<close> itself changes nothing, and so sends nothing,
  when the user name or the password it holds is empty.
\<close>

theorem absent_credentials_are_silent:
  "(r_username = Inr None \<or> r_username = Inr (Some []) \<or> r_password = Inr None
      \<or> r_password = Inr (Some []) \<longrightarrow>
      authStatus (loadSavedCredentials r_username r_password r_workspaces st) = authStatus st
      \<and> notifications (loadSavedCredentials r_username r_password r_workspaces st)
          = notifications st
      \<and> (invoked (loadSavedCredentials r_username r_password r_workspaces st)
            = invoked st @ [Get_credentials]
          \<or> invoked (loadSavedCredentials r_username r_password r_workspaces st)
            = invoked st @ [Get_credentials, Get_app_password]))
   \<and> (currentUsername st = [] \<or> currentAppPassword st = [] \<longrightarrow>
        loadWorkspaces r_workspaces st = st)"
  by (auto simp: loadSavedCredentials_def loadWorkspaces_def invoke_def console_error_def
      Let_def split: sum.splits option.splits)

theorem absent_credentials_are_silent_witness:
  "authStatus (loadSavedCredentials (Inr (Some ''dev'')) (Inr None)
                 (Inr [\<lparr>slug = ''acme'', name = None\<rparr>]) initial_state)
     = authStatus initial_state
   \<and> notifications (loadSavedCredentials (Inr (Some ''dev'')) (Inr None)
                 (Inr [\<lparr>slug = ''acme'', name = None\<rparr>]) initial_state) = []
   \<and> invoked (loadSavedCredentials (Inr (Some ''dev'')) (Inr None)
                 (Inr [\<lparr>slug = ''acme'', name = None\<rparr>]) initial_state)
     = [Get_credentials, Get_app_password]
   \<and> currentAppPassword (initial_state\<lparr>currentUsername := ''dev''\<rparr>) = []
   \<and> loadWorkspaces (Inr [\<lparr>slug = ''acme'', name = None\<rparr>])
         (initial_state\<lparr>currentUsername := ''dev''\<rparr>)
     = initial_state\<lparr>currentUsername := ''dev''\<rparr>"
proof -
  have empty: "currentAppPassword (initial_state\<lparr>currentUsername := ''dev''\<rparr>) = []"
    by (simp add: initial_state_def)
  have sent: "invoked (loadSavedCredentials (Inr (Some ''dev'')) (Inr None)
                 (Inr [\<lparr>slug = ''acme'', name = None\<rparr>]) initial_state)
     \<noteq> [Get_credentials]"
    by (simp add: loadSavedCredentials_def invoke_def initial_state_def)
  from empty sent
    absent_credentials_are_silent
      [of "Inr (Some ''dev'')" "Inr None" "Inr [\<lparr>slug = ''acme'', name = None\<rparr>]"
          initial_state]
    absent_credentials_are_silent
      [of "Inr (Some ''dev'')" "Inr None" "Inr [\<lparr>slug = ''acme'', name = None\<rparr>]"
          "initial_state\<lparr>currentUsername := ''dev''\<rparr>"]
  show ?thesis
    by (simp add: initial_state_def)
qed

subsection \<open>Manual refresh\<close>

lemma step_keeps_one_tick:
  assumes "ticks_in_flight s \<le> 1"
  shows "ticks_in_flight (snd (step (st, s) ev)) \<le> 1"
  using assms
  by (cases ev) (auto simp: triggerManualTick_def timer_fires_def tick_completes_def start_tick_def)

lemma steps_keep_one_tick:
  assumes "ticks_in_flight (snd c) \<le> 1"
  shows "ticks_in_flight (snd (foldl step c evs)) \<le> 1"
  using assms
proof (induction evs arbitrary: c)
  case Nil
  then show ?case by simp
next
  case (Cons ev evs)
  from Cons.prems have "ticks_in_flight (snd (step c ev)) \<le> 1"
    using step_keeps_one_tick [of "snd c" "fst c" ev] by simp
  from Cons.IH [OF this] show ?case
    by simp
qed

text \<open>The script forwards every click: it sends as many triggers as there were clicks.\<close>

lemma every_click_is_sent:
  "invoked (fst (foldl step (st, s) evs))
     = invoked st @ replicate (length (filter (\<lambda>ev. ev = Refresh_click) evs)) Trigger_refresh"
proof (induction evs arbitrary: st s)
  case Nil
  then show ?case by simp
next
  case (Cons ev evs)
  then show ?case
    by (cases ev) (simp_all add: refresh_click_def invoke_def replicate_append_same)
qed

text \<open>
  C7. Whatever the order of refresh clicks, timer expiries and tick completions, and
  however many clicks come in a row, the scheduler never has more than one tick in flight.
\<close>

theorem ticks_are_serialized:
  "ticks_in_flight (snd (run evs)) \<le> 1"
  unfolding run_def by (rule steps_keep_one_tick) (simp add: idle_def)

subsection \<open>Settings\<close>

lemma saveSettings_below_floor:
  assumes "parseInt (pollingIntervalInput st) = Num n" and "n < 30"
  shows "saveSettings r st = showNotification ''Interval must be at least 30 seconds'' ''error'' st"
  using assms by (simp add: saveSettings_def)

lemma saveSettings_sends:
  assumes "Set_polling_interval x \<in> set (invoked (saveSettings r st))"
  shows "Set_polling_interval x \<in> set (invoked st) \<or> x = NaN \<or> x = Infinity
           \<or> (\<exists>n. x = Num n \<and> 30 \<le> n)"
  using assms
  by (cases "parseInt (pollingIntervalInput st)"; cases r)
     (auto simp: saveSettings_def invoke_def showNotification_def Let_def split: if_splits)

lemma parseInt_empty: "parseInt [] = NaN"
  by (simp add: parseInt_def trim_start.simps leading_whitespace_def js_whitespace_def)

text \<open>
  C1, at the input that breaks it: with the interval field left empty \<^verbatim>\<open>parseInt\<close>
  gives \<^verbatim>\<open>NaN\<close>, the test \<^verbatim>\<open>interval < 30\<close> is false, and \<^verbatim>\<open>saveSettings\<close> sends
  \<^verbatim>\<open>set_polling_interval\<close> with \<^verbatim>\<open>NaN\<close> without showing the floor's error.
\<close>

theorem saveSettings_empty_field:
  "invoked (saveSettings r (initial_state\<lparr>pollingIntervalInput := []\<rparr>))
     = [Set_polling_interval NaN]
   \<and> (''Interval must be at least 30 seconds'', ''error'')
       \<notin> set (notifications (saveSettings r (initial_state\<lparr>pollingIntervalInput := []\<rparr>)))"
  by (cases r)
     (simp_all add: saveSettings_def parseInt_empty invoke_def showNotification_def
        initial_state_def)

end
